theory Spec2Isabelle
  imports Main "HOL-Library.Sublist"
begin

section \<open>JavaScript strings\<close>


definition is_space :: "char \<Rightarrow> bool" where
  "is_space c =
     (let n = (of_char c :: nat) in (9 \<le> n \<and> n \<le> 13) \<or> n = 32 \<or> n = 160)"






text \<open>\<open>s.trim()\<close>: white space and line terminators removed at both ends.\<close>

definition trim :: "string \<Rightarrow> string" where
  "trim s = rev (dropWhile is_space (rev (dropWhile is_space s)))"

text \<open>\<open>encodeURIComponent(s)\<close> on code units 0..255: the unreserved characters stay, every
  other code unit becomes the percent-escapes of its UTF-8 bytes.\<close>

definition is_unreserved :: "char \<Rightarrow> bool" where
  "is_unreserved c =
     (let n = (of_char c :: nat)
      in (48 \<le> n \<and> n \<le> 57) \<or> (65 \<le> n \<and> n \<le> 90) \<or> (97 \<le> n \<and> n \<le> 122) \<or>
         n \<in> {45, 95, 46, 33, 126, 42, 39, 40, 41})"

definition hex_digit :: "nat \<Rightarrow> char" where
  "hex_digit d = (if d < 10 then char_of (48 + d) else char_of (55 + d))"

definition percent_byte :: "nat \<Rightarrow> string" where
  "percent_byte b = [CHR ''%'', hex_digit (b div 16), hex_digit (b mod 16)]"

definition encode_char :: "char \<Rightarrow> string" where
  "encode_char c =
     (let n = (of_char c :: nat)
      in if is_unreserved c then [c]
         else if n < 128 then percent_byte n
         else percent_byte (192 + n div 64) @ percent_byte (128 + n mod 64))"

definition encodeURIComponent :: "string \<Rightarrow> string" where
  "encodeURIComponent s = concat (map encode_char s)"



section \<open>The state of the page\<close>

text \<open>
  The four variables of the script, the parts of the document it reads and writes, and a
  log of what it asks of its collaborators: the requests sent with \<open>fetch\<close>, the documents
  and pages asked of the PDF library, the alerts and the notifications shown, and the
  callbacks waiting on a timer. Style classes, scrolling and the geometry of a highlight
  (floating point) are left out. An element that the script reads without a check is
  taken to exist; the elements that \<open>loadPdf\<close> and \<open>highlightText\<close> look up and test are
  flags of the state, as are the two libraries, which the script tests with \<open>typeof\<close>.
\<close>

record pdf =
  numPages :: int

record text_item =
  str :: string

datatype highlight = Highlight nat

datatype page_use = ForRender | ForHighlight string

datatype fc_view = Buttons | Thanks string

record feedback_container =
  fc_id :: nat
  data_question :: string
  data_answer :: string
  data_filename :: string
  fc_view :: fc_view

datatype chat_element =
  UserMessage string
| AssistantMessage string "int option" feedback_container

record file_item =
  li_id :: nat
  li_filename :: "string option"
  btn_filename :: string

record upload_file =
  file_type :: string
  file_size :: nat

datatype body =
  NoBody
| FormData upload_file
| AskJson string
| AskFileJson string string
| FeedbackJson string string string string string
| FilenameJson string

record request =
  meth :: string
  url :: string
  body :: body

datatype task = AutoSelect nat string | HighlightSource string

record feedback_modal =
  modal_question :: string
  modal_answer :: string
  modal_container :: feedback_container

record app_state =
  pdfDoc :: "pdf option"
  currentPage :: int
  totalPages :: int
  selectedFile :: "string option"
  currentHighlights :: "highlight list"
  currentPageTextContent :: "text_item list option"
  pdfjsLib :: bool
  converter :: "(string \<Rightarrow> string) option"
  has_pdfViewer :: bool
  has_pdfPlaceholder :: bool
  has_canvas :: bool
  has_highlightLayer :: bool
  viewerDisplayed :: bool
  placeholderDisplayed :: bool
  overlayShown :: bool
  prevDisabled :: bool
  nextDisabled :: bool
  chatBox :: "chat_element list"
  welcomeShown :: bool
  welcomeText :: string
  chatStatus :: string
  userInput :: string
  chatDisabled :: bool
  fileList :: "file_item list"
  fileCount :: "int option"
  next_id :: nat
  modals :: "feedback_modal list"
  uploadModalShown :: bool
  uploadSubmitDisabled :: bool
  highlightIndicator :: bool
  alerts :: "string list"
  notifications :: "(string \<times> string) list"
  requests :: "request list"
  getDocumentCalls :: "string list"
  getPageCalls :: "(int \<times> page_use) list"
  timeouts :: "task list"






section \<open>Small helpers of the script\<close>

definition showNotification :: "string \<Rightarrow> string \<Rightarrow> app_state \<Rightarrow> app_state" where
  "showNotification message type s = s\<lparr>notifications := notifications s @ [(message, type)]\<rparr>"

definition alert :: "string \<Rightarrow> app_state \<Rightarrow> app_state" where
  "alert message s = s\<lparr>alerts := alerts s @ [message]\<rparr>"

definition fetch :: "string \<Rightarrow> string \<Rightarrow> body \<Rightarrow> app_state \<Rightarrow> app_state" where
  "fetch m u b s = s\<lparr>requests := requests s @ [\<lparr>meth = m, url = u, body = b\<rparr>]\<rparr>"

definition resetUploadButton :: "app_state \<Rightarrow> app_state" where
  "resetUploadButton s = s\<lparr>uploadSubmitDisabled := False\<rparr>"

definition showUploadLoading :: "app_state \<Rightarrow> app_state" where
  "showUploadLoading s = s\<lparr>uploadSubmitDisabled := True\<rparr>"

definition closeUploadModal :: "app_state \<Rightarrow> app_state" where
  "closeUploadModal s = resetUploadButton (s\<lparr>uploadModalShown := False\<rparr>)"

definition showLoadingOverlay :: "app_state \<Rightarrow> app_state" where
  "showLoadingOverlay s = s\<lparr>overlayShown := True\<rparr>"

definition hideLoadingOverlay :: "app_state \<Rightarrow> app_state" where
  "hideLoadingOverlay s = s\<lparr>overlayShown := False\<rparr>"

definition updateChatStatus :: "string \<Rightarrow> app_state \<Rightarrow> app_state" where
  "updateChatStatus status s = s\<lparr>chatStatus := status\<rparr>"

definition enableChat :: "bool \<Rightarrow> app_state \<Rightarrow> app_state" where
  "enableChat enabled s =
     updateChatStatus
       (if enabled then ''Ready - Ask about any document'' else ''No documents available'')
       (s\<lparr>chatDisabled := \<not> enabled\<rparr>)"

definition updatePageControls :: "app_state \<Rightarrow> app_state" where
  "updatePageControls s =
     s\<lparr>prevDisabled := (currentPage s \<le> 1), nextDisabled := (currentPage s \<ge> totalPages s)\<rparr>"

definition clearHighlights :: "app_state \<Rightarrow> app_state" where
  "clearHighlights s = s\<lparr>highlightIndicator := False, currentHighlights := []\<rparr>"

section \<open>Loading and rendering a document\<close>

text \<open>\<open>renderPage\<close> asks the library for the page; when the page has been drawn and its
  text has arrived, \<open>renderPage_text\<close> stores the text and clears the highlights.\<close>

definition renderPage :: "int \<Rightarrow> app_state \<Rightarrow> app_state" where
  "renderPage pageNumber s =
     (case pdfDoc s of
        None \<Rightarrow> s
      | Some d \<Rightarrow> s\<lparr>getPageCalls := getPageCalls s @ [(pageNumber, ForRender)]\<rparr>)"

definition renderPage_text :: "text_item list \<Rightarrow> app_state \<Rightarrow> app_state" where
  "renderPage_text textContent s = clearHighlights (s\<lparr>currentPageTextContent := Some textContent\<rparr>)"

text \<open>\<open>loadPdf\<close> up to the call of \<open>pdfjsLib.getDocument\<close>; the two callbacks of the
  promise follow.\<close>

definition loadPdf_unavailable :: "string \<Rightarrow> app_state \<Rightarrow> app_state" where
  "loadPdf_unavailable message s =
     (showNotification message ''error'' (hideLoadingOverlay s))
       \<lparr>placeholderDisplayed := True, viewerDisplayed := False\<rparr>"

definition loadPdf :: "string \<Rightarrow> app_state \<Rightarrow> app_state" where
  "loadPdf u s =
     (if \<not> has_pdfViewer s \<or> \<not> has_pdfPlaceholder s then s
      else
        let s1 = (showLoadingOverlay s)\<lparr>placeholderDisplayed := False, viewerDisplayed := True\<rparr>
        in if pdfjsLib s1 then s1\<lparr>getDocumentCalls := getDocumentCalls s1 @ [u]\<rparr>
           else loadPdf_unavailable ''PDF viewer not available.'' s1)"

definition loadPdf_then :: "pdf \<Rightarrow> app_state \<Rightarrow> app_state" where
  "loadPdf_then d s =
     (let s1 = s\<lparr>pdfDoc := Some d, totalPages := numPages d, currentPage := 1\<rparr>
      in hideLoadingOverlay (updatePageControls (renderPage (currentPage s1) s1)))"

definition loadPdf_catch :: "app_state \<Rightarrow> app_state" where
  "loadPdf_catch s = loadPdf_unavailable ''Failed to load PDF.'' s"

section \<open>Highlighting the source text\<close>




text \<open>\<open>highlightText\<close> up to the call of \<open>pdfDoc.getPage\<close>, then the callback of the
  page, which reads \<open>window.currentPageTextContent\<close> again.\<close>

definition highlightText :: "string \<Rightarrow> app_state \<Rightarrow> app_state" where
  "highlightText searchText s =
     (if currentPageTextContent s = None \<or> searchText = [] then s
      else
        let s1 = clearHighlights s
        in if \<not> has_canvas s1 \<or> \<not> has_highlightLayer s1 then s1
           else (case pdfDoc s1 of
                   None \<Rightarrow> s1
                 | Some d \<Rightarrow>
                     s1\<lparr>getPageCalls :=
                          getPageCalls s1 @ [(currentPage s1, ForHighlight searchText)]\<rparr>))"


section \<open>The chat transcript\<close>



record history_msg =
  msg_role :: string
  msg_content :: string

definition loadHistory :: "string \<Rightarrow> app_state \<Rightarrow> app_state" where
  "loadHistory filename s =
     fetch ''GET'' (''/history?filename='' @ encodeURIComponent filename) NoBody
       (s\<lparr>chatBox := [], welcomeShown := True,
          welcomeText := ''Ask me anything about '' @ [CHR 0x22] @ filename @ [CHR 0x22]\<rparr>)"




section \<open>Asking a question\<close>

record ask_data =
  ask_error :: "string option"
  ask_answer :: string
  ask_filename :: "string option"
  ask_source_page :: "int option"
  ask_source_content :: "string option"









section \<open>Clearing the chat\<close>

record reply =
  reply_error :: "string option"
  reply_success :: string





section \<open>The list of files\<close>







definition resetUI :: "app_state \<Rightarrow> app_state" where
  "resetUI s =
     (let s1 = clearHighlights
                 (s\<lparr>selectedFile := None, pdfDoc := None, currentPage := 1, totalPages := 0\<rparr>);
          s2 = (if has_pdfViewer s1 then s1\<lparr>viewerDisplayed := False\<rparr> else s1);
          s3 = (if has_pdfPlaceholder s2 then s2\<lparr>placeholderDisplayed := True\<rparr> else s2)
      in updatePageControls (enableChat False (s3\<lparr>chatBox := [], welcomeShown := True\<rparr>)))"






section \<open>Uploading a file\<close>

record upload_data =
  upload_error :: "string option"
  upload_filename :: string

text \<open>\<open>file\<close> is \<open>pdfFileInput.files[0]\<close>, absent when no file is chosen.\<close>

definition uploadForm_submit :: "upload_file option \<Rightarrow> app_state \<Rightarrow> app_state" where
  "uploadForm_submit file s =
     (case file of
        None \<Rightarrow> alert ''Please select a PDF file.'' s
      | Some f \<Rightarrow>
          if file_type f \<noteq> ''application/pdf'' then alert ''Please select a PDF file.'' s
          else if file_size f > 10 * 1024 * 1024 then alert ''File size must be less than 10MB.'' s
          else fetch ''POST'' ''/upload'' (FormData f) (showUploadLoading s))"




section \<open>Feedback\<close>

record feedback_data =
  fb_message :: "string option"
  fb_error :: "string option"

definition sendFeedback ::
  "string \<Rightarrow> string \<Rightarrow> string \<Rightarrow> string \<Rightarrow> feedback_container \<Rightarrow> app_state \<Rightarrow> app_state" where
  "sendFeedback question answer feedbackType additionalInfo feedbackContainer s =
     (let filename = data_filename feedbackContainer
      in if filename = []
         then showNotification ''Cannot determine which document this feedback is for'' ''error'' s
         else if question = [] \<or> answer = [] \<or> feedbackType = []
         then showNotification ''Missing required information for feedback'' ''error'' s
         else fetch ''POST'' ''/feedback''
                (FeedbackJson filename question answer feedbackType additionalInfo) s)"




definition showFeedbackModal ::
  "string \<Rightarrow> string \<Rightarrow> feedback_container \<Rightarrow> app_state \<Rightarrow> app_state" where
  "showFeedbackModal question answer feedbackContainer s =
     s\<lparr>modals := modals s @
          [\<lparr>modal_question = question, modal_answer = answer,
            modal_container = feedbackContainer\<rparr>]\<rparr>"

text \<open>A click on a feedback button: \<open>feedback\<close> is the button's \<open>data-feedback\<close>.\<close>

definition chatBox_click :: "string \<Rightarrow> feedback_container \<Rightarrow> app_state \<Rightarrow> app_state" where
  "chatBox_click feedback feedbackContainer s =
     (let question = data_question feedbackContainer;
          answer = data_answer feedbackContainer
      in if feedback = ''like'' then sendFeedback question answer ''like'' [] feedbackContainer s
         else if feedback = ''dislike'' then showFeedbackModal question answer feedbackContainer s
         else s)"


definition modal_submit :: "feedback_modal \<Rightarrow> string \<Rightarrow> app_state \<Rightarrow> app_state" where
  "modal_submit modal text s =
     (let feedbackText = trim text
      in if feedbackText \<noteq> []
         then (sendFeedback (modal_question modal) (modal_answer modal) ''dislike'' feedbackText
                 (modal_container modal) s)\<lparr>modals := remove1 modal (modals s)\<rparr>
         else s)"

section \<open>Page navigation\<close>



section \<open>The earlier copy of the script\<close>



section \<open>The page as a whole\<close>



text \<open>Everything that can happen to the page: the events the script listens to, and the
  replies, failures and timers of what it has started.\<close>

datatype event =
  UploadSubmit "upload_file option"
| UploadReply upload_data
| UploadFailed
| ListClick "string option" "(nat \<times> string) option" bool
| PrevClick
| NextClick
| TypeInput string
| Ask
| AskReply string ask_data
| AskFailed
| ClearClick bool
| ClearReply string reply
| ClearFailed
| FeedbackClick string feedback_container
| ModalCancel feedback_modal
| ModalSubmit feedback_modal string
| FeedbackReply string feedback_container feedback_data
| FeedbackFailed
| PdfLoaded pdf
| PdfFailed
| PageText "text_item list"
| PageForHighlight string
| HistoryReply string "history_msg list option"
| HistoryFailed
| DeleteReply string nat reply
| DeleteFailed
| Timeout task
| StartupTimeout



text \<open>The state when the script has started, on a page that has the elements the script
  expects, with the PDF library loaded, the given converter and the given files.\<close>

definition init :: "(string \<Rightarrow> string) option \<Rightarrow> file_item list \<Rightarrow> app_state" where
  "init conv items =
     \<lparr>pdfDoc = None, currentPage = 1, totalPages = 0, selectedFile = None,
      currentHighlights = [], currentPageTextContent = None, pdfjsLib = True,
      converter = conv, has_pdfViewer = True, has_pdfPlaceholder = True, has_canvas = True,
      has_highlightLayer = True, viewerDisplayed = False, placeholderDisplayed = True,
      overlayShown = False, prevDisabled = True, nextDisabled = True, chatBox = [],
      welcomeShown = True, welcomeText = [], chatStatus = ''Loading documents...'',
      userInput = [], chatDisabled = True, fileList = items,
      fileCount = Some (int (length items)), next_id = Suc (sum_list (map li_id items)),
      modals = [], uploadModalShown = False, uploadSubmitDisabled = False,
      highlightIndicator = False, alerts = [], notifications = [], requests = [],
      getDocumentCalls = [], getPageCalls = [], timeouts = []\<rparr>"



section \<open>Notions used to state the properties\<close>



section \<open>Example states\<close>

text \<open>A converter that wraps its input in a paragraph, to tell converted text from raw
  text.\<close>

definition example_makeHtml :: "string \<Rightarrow> string" where
  "example_makeHtml markdown = ''<p>'' @ markdown @ ''</p>''"

text \<open>A page with a document of three pages loaded and the text of its first page.\<close>

definition example_items :: "text_item list" where
  "example_items = [\<lparr>str = ''The QUICK fox''\<rparr>, \<lparr>str = ''is lazy''\<rparr>, \<lparr>str = ''Brownies''\<rparr>]"

definition example_page :: app_state where
  "example_page =
     (init (Some example_makeHtml) [])
       \<lparr>pdfDoc := Some \<lparr>numPages = 3\<rparr>, totalPages := 3, selectedFile := Some ''a.pdf'',
        currentPageTextContent := Some example_items\<rparr>"



text \<open>The feedback container of an answer, and one whose question is missing.\<close>

definition example_container :: feedback_container where
  "example_container =
     \<lparr>fc_id = 0, data_question = ''What is it?'', data_answer = ''A test.'',
      data_filename = ''a.pdf'', fc_view = Buttons\<rparr>"

definition example_modal :: feedback_modal where
  "example_modal =
     \<lparr>modal_question = data_question example_container,
      modal_answer = data_answer example_container, modal_container = example_container\<rparr>"

text \<open>A page without the PDF library, and one that also lacks the placeholder element.\<close>

definition example_no_library :: app_state where
  "example_no_library = (init (Some example_makeHtml) [])\<lparr>pdfjsLib := False\<rparr>"

definition example_bare :: app_state where
  "example_bare = example_no_library\<lparr>has_pdfPlaceholder := False\<rparr>"






section \<open>Notions of the specification\<close>

text \<open>The validation of an upload as the specification words it: a file is selected, its
  type is \<open>application/pdf\<close> and its size is at most 10 * 1024 * 1024 bytes.\<close>

definition passes_validation :: "upload_file option \<Rightarrow> bool" where
  "passes_validation file =
     (case file of
        None \<Rightarrow> False
      | Some f \<Rightarrow> file_type f = ''application/pdf'' \<and> file_size f \<le> 10 * 1024 * 1024)"


text \<open>An element of the transcript shows what the converter makes of the content it
  stands for: an answer shows \<open>makeHtml\<close> of the answer kept in its feedback container.
  A transcript is converted when the page has the converter and every element shows that.\<close>

fun shows_converted :: "(string \<Rightarrow> string) \<Rightarrow> chat_element \<Rightarrow> bool" where
  "shows_converted makeHtml (UserMessage c) = True"
| "shows_converted makeHtml (AssistantMessage h p fc) = (h = makeHtml (data_answer fc))"

definition converted :: "(string \<Rightarrow> string) \<Rightarrow> app_state \<Rightarrow> bool" where
  "converted makeHtml s =
     (converter s = Some makeHtml \<and> list_all (shows_converted makeHtml) (chatBox s))"

text \<open>Exactly one report of an error between two states, and no request: one alert, one
  notification of the type \<open>error\<close>, or one message in the chat has been added, and
  nothing else has been shown or sent.\<close>

definition one_more :: "'a list \<Rightarrow> 'a list \<Rightarrow> bool" where
  "one_more xs ys = (length ys = Suc (length xs) \<and> take (length xs) ys = xs)"

definition one_report :: "app_state \<Rightarrow> app_state \<Rightarrow> bool" where
  "one_report s s' =
     (requests s' = requests s \<and>
      (one_more (alerts s) (alerts s') \<and> notifications s' = notifications s \<and>
         chatBox s' = chatBox s \<or>
       one_more (notifications s) (notifications s') \<and> snd (last (notifications s')) = ''error'' \<and>
         alerts s' = alerts s \<and> chatBox s' = chatBox s \<or>
       one_more (chatBox s) (chatBox s') \<and> alerts s' = alerts s \<and>
         notifications s' = notifications s))"

section \<open>Properties of the highlighting heuristic\<close>













text \<open>When \<open>highlightText\<close> asks for the page, whose callback does the scan: the text of
  the page has been stored, the search text is not empty, the canvas and the highlight
  layer exist and a document is loaded.\<close>

lemma highlightText_asks_page:
  "getPageCalls (highlightText searchText s) =
     (if currentPageTextContent s \<noteq> None \<and> searchText \<noteq> [] \<and> has_canvas s \<and>
         has_highlightLayer s \<and> pdfDoc s \<noteq> None
      then getPageCalls s @ [(currentPage s, ForHighlight searchText)]
      else getPageCalls s)"
  by (auto simp: highlightText_def clearHighlights_def Let_def split: option.splits)




section \<open>Properties of the upload form\<close>

text \<open>
  Claim C8. Submitting the upload form sends one POST request to \<open>/upload\<close> with the file
  when a file is selected, its type is \<open>application/pdf\<close> and its size is at most
  10 * 1024 * 1024 bytes, and shows no alert; otherwise it sends no request and shows one
  alert: \<open>File size must be less than 10MB.\<close> for a PDF file that is too large,
  \<open>Please select a PDF file.\<close> for anything else.
\<close>

theorem upload_validation:
  "(passes_validation file \<longrightarrow>
      (\<exists>f. file = Some f \<and>
         requests (uploadForm_submit file s) =
           requests s @ [\<lparr>meth = ''POST'', url = ''/upload'', body = FormData f\<rparr>] \<and>
         alerts (uploadForm_submit file s) = alerts s)) \<and>
   (\<not> passes_validation file \<longrightarrow>
      requests (uploadForm_submit file s) = requests s \<and>
      alerts (uploadForm_submit file s) =
        alerts s @ [if \<exists>f. file = Some f \<and> file_type f = ''application/pdf''
                    then ''File size must be less than 10MB.''
                    else ''Please select a PDF file.''])"
  by (cases "file")
     (auto simp: passes_validation_def uploadForm_submit_def alert_def fetch_def
        showUploadLoading_def)

theorem upload_validation_witness:
  "requests (uploadForm_submit (Some \<lparr>file_type = ''application/pdf'', file_size = 4096\<rparr>)
      example_page) =
     [\<lparr>meth = ''POST'', url = ''/upload'',
       body = FormData \<lparr>file_type = ''application/pdf'', file_size = 4096\<rparr>\<rparr>] \<and>
   requests (uploadForm_submit (Some \<lparr>file_type = ''application/pdf'', file_size = 10485761\<rparr>)
      example_page) = [] \<and>
   alerts (uploadForm_submit (Some \<lparr>file_type = ''application/pdf'', file_size = 10485761\<rparr>)
      example_page) = [''File size must be less than 10MB.''] \<and>
   alerts (uploadForm_submit (Some \<lparr>file_type = ''text/plain'', file_size = 12\<rparr>)
      example_page) = [''Please select a PDF file.'']"
proof -
  have none: "requests example_page = [] \<and> alerts example_page = []"
    by (simp add: example_page_def init_def)
  show ?thesis
    using upload_validation
        [of "Some \<lparr>file_type = ''application/pdf'', file_size = 4096\<rparr>" example_page]
      upload_validation
        [of "Some \<lparr>file_type = ''application/pdf'', file_size = 10485761\<rparr>" example_page]
      upload_validation
        [of "Some \<lparr>file_type = ''text/plain'', file_size = 12\<rparr>" example_page]
      none
    by (simp add: passes_validation_def)
qed

section \<open>Properties of the page navigation\<close>










section \<open>Properties of the list of files\<close>










section \<open>Properties of the feedback\<close>

lemma sendFeedback_sent:
  "data_filename c \<noteq> [] \<Longrightarrow> question \<noteq> [] \<Longrightarrow> answer \<noteq> [] \<Longrightarrow> feedbackType \<noteq> [] \<Longrightarrow>
     sendFeedback question answer feedbackType additionalInfo c s =
       s\<lparr>requests := requests s @
            [\<lparr>meth = ''POST'', url = ''/feedback'',
              body = FeedbackJson (data_filename c) question answer feedbackType additionalInfo\<rparr>]\<rparr>"
  by (simp add: sendFeedback_def fetch_def)

lemma sendFeedback_missing:
  "data_filename c = [] \<or> question = [] \<or> answer = [] \<or> feedbackType = [] \<Longrightarrow>
     sendFeedback question answer feedbackType additionalInfo c s =
       s\<lparr>notifications := notifications s @
            [(if data_filename c = []
              then ''Cannot determine which document this feedback is for''
              else ''Missing required information for feedback'', ''error'')]\<rparr>"
  by (auto simp: sendFeedback_def showNotification_def)

lemma like_click:
  "data_question c \<noteq> [] \<Longrightarrow> data_answer c \<noteq> [] \<Longrightarrow> data_filename c \<noteq> [] \<Longrightarrow>
     chatBox_click ''like'' c s =
       s\<lparr>requests := requests s @
            [\<lparr>meth = ''POST'', url = ''/feedback'',
              body = FeedbackJson (data_filename c) (data_question c) (data_answer c) ''like'' []\<rparr>]\<rparr>"
  by (simp add: chatBox_click_def Let_def sendFeedback_sent)

lemma dislike_click:
  "chatBox_click ''dislike'' c s =
     s\<lparr>modals := modals s @
          [\<lparr>modal_question = data_question c, modal_answer = data_answer c,
            modal_container = c\<rparr>]\<rparr>"
  by (simp add: chatBox_click_def Let_def showFeedbackModal_def)

lemma modal_submit_requests:
  "modal_question m \<noteq> [] \<Longrightarrow> modal_answer m \<noteq> [] \<Longrightarrow> data_filename (modal_container m) \<noteq> [] \<Longrightarrow>
     requests (modal_submit m t s) =
       (if trim t \<noteq> []
        then requests s @
          [\<lparr>meth = ''POST'', url = ''/feedback'',
            body = FeedbackJson (data_filename (modal_container m)) (modal_question m)
                     (modal_answer m) ''dislike'' (trim t)\<rparr>]
        else requests s)"
  by (simp add: modal_submit_def Let_def sendFeedback_sent)


text \<open>
  Claim C4. A click on the like button of a container whose question, answer and file
  name are not empty sends one POST request to \<open>/feedback\<close> with the feedback type
  \<open>like\<close> and empty additional information, and shows no notification. A click on the
  dislike button opens a modal and sends nothing; submitting the modal of such a container
  sends one POST request to \<open>/feedback\<close> with the feedback type \<open>dislike\<close> and the
  trimmed text when the trimmed text is not empty, and nothing otherwise. When the file
  name, the question, the answer or the feedback type is empty, \<open>sendFeedback\<close> sends
  nothing and shows one error notification.
\<close>

theorem feedback_capture:
  "(data_question c \<noteq> [] \<and> data_answer c \<noteq> [] \<and> data_filename c \<noteq> [] \<longrightarrow>
      requests (chatBox_click ''like'' c s) =
        requests s @
          [\<lparr>meth = ''POST'', url = ''/feedback'',
            body = FeedbackJson (data_filename c) (data_question c) (data_answer c) ''like'' []\<rparr>] \<and>
      notifications (chatBox_click ''like'' c s) = notifications s) \<and>
   modals (chatBox_click ''dislike'' c s) =
     modals s @
       [\<lparr>modal_question = data_question c, modal_answer = data_answer c, modal_container = c\<rparr>] \<and>
   requests (chatBox_click ''dislike'' c s) = requests s \<and>
   (modal_question m \<noteq> [] \<and> modal_answer m \<noteq> [] \<and> data_filename (modal_container m) \<noteq> [] \<longrightarrow>
      requests (modal_submit m t s) =
        (if trim t \<noteq> []
         then requests s @
           [\<lparr>meth = ''POST'', url = ''/feedback'',
             body = FeedbackJson (data_filename (modal_container m)) (modal_question m)
                      (modal_answer m) ''dislike'' (trim t)\<rparr>]
         else requests s)) \<and>
   (data_filename c = [] \<or> question = [] \<or> answer = [] \<or> feedbackType = [] \<longrightarrow>
      requests (sendFeedback question answer feedbackType additionalInfo c s) = requests s \<and>
      (\<exists>message.
         notifications (sendFeedback question answer feedbackType additionalInfo c s) =
           notifications s @ [(message, ''error'')]))"
proof (intro conjI impI)
  assume full: "data_question c \<noteq> [] \<and> data_answer c \<noteq> [] \<and> data_filename c \<noteq> []"
  then show "requests (chatBox_click ''like'' c s) =
        requests s @
          [\<lparr>meth = ''POST'', url = ''/feedback'',
            body = FeedbackJson (data_filename c) (data_question c) (data_answer c) ''like'' []\<rparr>]"
    by (simp add: like_click)
  from full show "notifications (chatBox_click ''like'' c s) = notifications s"
    by (simp add: like_click)
next
  show "modals (chatBox_click ''dislike'' c s) =
     modals s @
       [\<lparr>modal_question = data_question c, modal_answer = data_answer c, modal_container = c\<rparr>]"
    by (simp add: dislike_click)
  show "requests (chatBox_click ''dislike'' c s) = requests s"
    by (simp add: dislike_click)
next
  assume "modal_question m \<noteq> [] \<and> modal_answer m \<noteq> [] \<and> data_filename (modal_container m) \<noteq> []"
  then show "requests (modal_submit m t s) =
        (if trim t \<noteq> []
         then requests s @
           [\<lparr>meth = ''POST'', url = ''/feedback'',
             body = FeedbackJson (data_filename (modal_container m)) (modal_question m)
                      (modal_answer m) ''dislike'' (trim t)\<rparr>]
         else requests s)"
    by (simp add: modal_submit_requests)
next
  assume missing: "data_filename c = [] \<or> question = [] \<or> answer = [] \<or> feedbackType = []"
  then show "requests (sendFeedback question answer feedbackType additionalInfo c s) = requests s"
    by (simp add: sendFeedback_missing)
  from missing show "\<exists>message.
         notifications (sendFeedback question answer feedbackType additionalInfo c s) =
           notifications s @ [(message, ''error'')]"
    by (simp add: sendFeedback_missing)
qed

theorem feedback_capture_witness:
  "requests (chatBox_click ''like'' example_container example_page) =
     [\<lparr>meth = ''POST'', url = ''/feedback'',
       body = FeedbackJson ''a.pdf'' ''What is it?'' ''A test.'' ''like'' []\<rparr>] \<and>
   modals (chatBox_click ''dislike'' example_container example_page) = [example_modal] \<and>
   requests (modal_submit example_modal ''  wrong page '' example_page) =
     [\<lparr>meth = ''POST'', url = ''/feedback'',
       body = FeedbackJson ''a.pdf'' ''What is it?'' ''A test.'' ''dislike'' ''wrong page''\<rparr>] \<and>
   requests (modal_submit example_modal ''   '' example_page) = [] \<and>
   requests (sendFeedback [] ''A test.'' ''like'' [] example_container example_page) = [] \<and>
   (\<exists>message.
      notifications (sendFeedback [] ''A test.'' ''like'' [] example_container example_page) =
        [(message, ''error'')])"
proof -
  have none: "requests example_page = [] \<and> notifications example_page = [] \<and> modals example_page = []"
    by (simp add: example_page_def init_def)
  have data: "data_question example_container = ''What is it?'' \<and>
      data_answer example_container = ''A test.'' \<and> data_filename example_container = ''a.pdf''"
    by (simp add: example_container_def)
  have modal: "modal_question example_modal = ''What is it?'' \<and>
      modal_answer example_modal = ''A test.'' \<and> modal_container example_modal = example_container"
    by (simp add: example_modal_def example_container_def)
  have trimmed: "trim ''  wrong page '' = ''wrong page'' \<and> trim ''   '' = []"
    by code_simp
  show ?thesis
    using feedback_capture
        [of example_container example_page example_modal "''  wrong page ''" "[]" "''A test.''"
           "''like''" "[]"]
      feedback_capture
        [of example_container example_page example_modal "''   ''" "[]" "''A test.''"
           "''like''" "[]"]
      none data modal trimmed
    by (simp add: example_modal_def)
qed



section \<open>Properties of the loading of a document\<close>

lemma loadPdf_keeps_document:
  "pdfDoc (loadPdf u s) = pdfDoc s \<and> currentPage (loadPdf u s) = currentPage s \<and>
   totalPages (loadPdf u s) = totalPages s"
  by (simp add: loadPdf_def loadPdf_unavailable_def showLoadingOverlay_def
      hideLoadingOverlay_def showNotification_def Let_def)

lemma loadPdf_asks_library:
  "has_pdfViewer s \<Longrightarrow> has_pdfPlaceholder s \<Longrightarrow> pdfjsLib s \<Longrightarrow>
     getDocumentCalls (loadPdf u s) = getDocumentCalls s @ [u] \<and>
     notifications (loadPdf u s) = notifications s \<and> overlayShown (loadPdf u s)"
  by (simp add: loadPdf_def showLoadingOverlay_def Let_def)

lemma loadPdf_no_elements:
  "\<not> has_pdfViewer s \<or> \<not> has_pdfPlaceholder s \<Longrightarrow> loadPdf u s = s"
  by (auto simp: loadPdf_def)

lemma loadPdf_no_library:
  "has_pdfViewer s \<Longrightarrow> has_pdfPlaceholder s \<Longrightarrow> \<not> pdfjsLib s \<Longrightarrow>
     \<not> overlayShown (loadPdf u s) \<and>
     notifications (loadPdf u s) = notifications s @ [(''PDF viewer not available.'', ''error'')] \<and>
     placeholderDisplayed (loadPdf u s) \<and> \<not> viewerDisplayed (loadPdf u s) \<and>
     getDocumentCalls (loadPdf u s) = getDocumentCalls s"
  by (simp add: loadPdf_def loadPdf_unavailable_def showLoadingOverlay_def
      hideLoadingOverlay_def showNotification_def Let_def)

lemma loadPdf_catch_effect:
  "\<not> overlayShown (loadPdf_catch s) \<and>
   notifications (loadPdf_catch s) = notifications s @ [(''Failed to load PDF.'', ''error'')] \<and>
   placeholderDisplayed (loadPdf_catch s) \<and> \<not> viewerDisplayed (loadPdf_catch s) \<and>
   pdfDoc (loadPdf_catch s) = pdfDoc s \<and> currentPage (loadPdf_catch s) = currentPage s \<and>
   totalPages (loadPdf_catch s) = totalPages s"
  by (simp add: loadPdf_catch_def loadPdf_unavailable_def hideLoadingOverlay_def
      showNotification_def)

lemma loadPdf_then_effect:
  "pdfDoc (loadPdf_then d s) = Some d \<and> totalPages (loadPdf_then d s) = numPages d \<and>
   currentPage (loadPdf_then d s) = 1 \<and> \<not> overlayShown (loadPdf_then d s)"
  by (simp add: loadPdf_then_def updatePageControls_def renderPage_def hideLoadingOverlay_def
      Let_def split: option.splits)


text \<open>
  Claim C7, as the script has it. \<open>loadPdf\<close> itself never changes \<open>pdfDoc\<close>,
  \<open>currentPage\<close> or \<open>totalPages\<close>; on a page that has the viewer and the placeholder
  elements and the PDF library, it asks the library for the document at the URL and shows
  no notification. A successful load sets \<open>pdfDoc\<close> to the loaded document, \<open>totalPages\<close>
  to its number of pages and \<open>currentPage\<close> to 1. A failed load hides the loading
  overlay, shows the error notification \<open>Failed to load PDF.\<close>, shows the placeholder,
  hides the viewer and leaves \<open>pdfDoc\<close>, \<open>currentPage\<close> and \<open>totalPages\<close> as they are;
  so does \<open>loadPdf\<close> with the notification \<open>PDF viewer not available.\<close> when the
  library is undefined on a page that has the two elements. On a page that lacks one of
  the two elements \<open>loadPdf\<close> returns at once and changes nothing.
\<close>

theorem loadPdf_delegation:
  "pdfDoc (loadPdf u s) = pdfDoc s \<and> currentPage (loadPdf u s) = currentPage s \<and>
   totalPages (loadPdf u s) = totalPages s \<and>
   (has_pdfViewer s \<and> has_pdfPlaceholder s \<and> pdfjsLib s \<longrightarrow>
      getDocumentCalls (loadPdf u s) = getDocumentCalls s @ [u] \<and>
      notifications (loadPdf u s) = notifications s) \<and>
   pdfDoc (loadPdf_then d s) = Some d \<and> totalPages (loadPdf_then d s) = numPages d \<and>
   currentPage (loadPdf_then d s) = 1 \<and>
   \<not> overlayShown (loadPdf_catch s) \<and>
   notifications (loadPdf_catch s) = notifications s @ [(''Failed to load PDF.'', ''error'')] \<and>
   placeholderDisplayed (loadPdf_catch s) \<and> \<not> viewerDisplayed (loadPdf_catch s) \<and>
   pdfDoc (loadPdf_catch s) = pdfDoc s \<and> currentPage (loadPdf_catch s) = currentPage s \<and>
   totalPages (loadPdf_catch s) = totalPages s \<and>
   (has_pdfViewer s \<and> has_pdfPlaceholder s \<and> \<not> pdfjsLib s \<longrightarrow>
      \<not> overlayShown (loadPdf u s) \<and>
      notifications (loadPdf u s) =
        notifications s @ [(''PDF viewer not available.'', ''error'')] \<and>
      placeholderDisplayed (loadPdf u s) \<and> \<not> viewerDisplayed (loadPdf u s) \<and>
      getDocumentCalls (loadPdf u s) = getDocumentCalls s) \<and>
   (\<not> has_pdfViewer s \<or> \<not> has_pdfPlaceholder s \<longrightarrow> loadPdf u s = s)"
  using loadPdf_keeps_document [of u s] loadPdf_asks_library [of s u] loadPdf_then_effect [of d s]
    loadPdf_catch_effect [of s] loadPdf_no_library [of s u] loadPdf_no_elements [of s u]
  by simp

theorem loadPdf_delegation_witness:
  "getDocumentCalls (loadPdf ''/uploads/a.pdf'' example_page) = [''/uploads/a.pdf''] \<and>
   notifications (loadPdf ''/uploads/a.pdf'' example_no_library) =
     [(''PDF viewer not available.'', ''error'')] \<and>
   placeholderDisplayed (loadPdf ''/uploads/a.pdf'' example_no_library) \<and>
   \<not> viewerDisplayed (loadPdf ''/uploads/a.pdf'' example_no_library) \<and>
   loadPdf ''/uploads/a.pdf'' example_bare = example_bare"
proof -
  have page: "has_pdfViewer example_page \<and> has_pdfPlaceholder example_page \<and>
      pdfjsLib example_page \<and> getDocumentCalls example_page = []"
    by (simp add: example_page_def init_def)
  have no_library: "has_pdfViewer example_no_library \<and> has_pdfPlaceholder example_no_library \<and>
      \<not> pdfjsLib example_no_library \<and> notifications example_no_library = []"
    by (simp add: example_no_library_def init_def)
  have bare: "\<not> has_pdfPlaceholder example_bare"
    by (simp add: example_bare_def)
  show ?thesis
    using loadPdf_delegation [of "''/uploads/a.pdf''" example_page]
      loadPdf_delegation [of "''/uploads/a.pdf''" example_no_library]
      loadPdf_delegation [of "''/uploads/a.pdf''" example_bare]
      page no_library bare
    by simp
qed

text \<open>Against claim C7 as it is stated: on a page without the placeholder element and
  without the PDF library, \<open>loadPdf\<close> shows no notification.\<close>

theorem loadPdf_silent_without_elements:
  "\<not> pdfjsLib example_bare \<and> notifications (loadPdf ''/uploads/a.pdf'' example_bare) = []"
  by (simp add: example_bare_def example_no_library_def init_def loadPdf_def)



section \<open>What each operation sends\<close>

lemmas helper_defs = showNotification_def alert_def fetch_def resetUploadButton_def
  showUploadLoading_def closeUploadModal_def showLoadingOverlay_def hideLoadingOverlay_def
  updateChatStatus_def enableChat_def updatePageControls_def clearHighlights_def
  renderPage_def renderPage_text_def loadPdf_unavailable_def loadPdf_def loadPdf_then_def
  loadPdf_catch_def



































section \<open>Properties of the requests\<close>












section \<open>Properties of the handling of failures\<close>















lemma not_one_report_same: "\<not> one_report s s"
  by (simp add: one_report_def one_more_def)







section \<open>Properties of the selection of a document\<close>


















section \<open>Properties of the transcript\<close>









lemma converted_loadPdf: "converted makeHtml s \<Longrightarrow> converted makeHtml (loadPdf u s)"
  by (simp add: converted_def helper_defs Let_def)

lemma converted_loadHistory: "converted makeHtml s \<Longrightarrow> converted makeHtml (loadHistory f s)"
  by (simp add: converted_def loadHistory_def helper_defs)













lemma converted_resetUI: "converted makeHtml s \<Longrightarrow> converted makeHtml (resetUI s)"
  by (simp add: converted_def resetUI_def helper_defs Let_def)

















end
